theory Spec2Isabelle
  imports Complex_Main
begin

section \<open>The music recommendation engine of \<^verbatim>\<open>usePlayer.tsx\<close>\<close>

text \<open>
  The class \<^verbatim>\<open>MusicRecommendationEngine\<close> (src/Frontend/src/hooks/usePlayer.tsx, lines
  63 to 348; src/Frontend/src/lib/supabase.ts holds a second copy of the same text) is
  embedded as functions on an explicit engine state.

  Conventions of the embedding.
  \<^item> A JavaScript \<^verbatim>\<open>number\<close> is an exact rational (\<^typ>\<open>rat\<close>): the decimal literals of the
    source are the fractions they write (\<^verbatim>\<open>0.3\<close> is \<open>3/10\<close>). \<^verbatim>\<open>NaN\<close> and the infinities are
    outside the model, and so is the rounding of IEEE doubles, except for
    \<open>discoveryOpenness\<close>, which is computed on doubles as well (see below).
  \<^item> An optional field (\<^verbatim>\<open>genre?: string\<close>) is an \<^typ>\<open>'a option\<close>; \<open>None\<close> is \<^verbatim>\<open>undefined\<close>.
  \<^item> A \<^verbatim>\<open>Map\<close> is an association list in insertion order with at most one entry per key;
    a \<^verbatim>\<open>Set\<close> is a list in insertion order without repetition.
  \<^item> Mutation of \<^verbatim>\<open>this\<close> is state passing; \<^verbatim>\<open>Date.now()\<close> is an argument \<open>now\<close>.
\<close>

subsection \<open>Data model\<close>

datatype Action = Play | Skip | Replay | Like | Full_listen

record ListeningEvent =
  songId :: string
  artist :: string
  genre :: "string option"
  action :: Action
  timestamp :: rat
  listenDuration :: "rat option"
  songDuration :: "rat option"

text \<open>\<^verbatim>\<open>moodPreferences\<close> is created empty and never read or written afterwards.\<close>

record UserTasteProfile =
  artistPreferences :: "(string \<times> rat) list"
  genrePreferences :: "(string \<times> rat) list"
  moodPreferences :: "(string \<times> rat) list"
  recentlyPlayed :: "string list"
  recentlySkipped :: "string list"
  favoriteArtists :: "string list"
  discoveryOpenness :: rat
  lastUpdated :: rat

record engine =
  userProfile :: UserTasteProfile
  listeningHistory :: "ListeningEvent list"

definition HISTORY_WINDOW :: nat where
  "HISTORY_WINDOW = 50"

definition RECENT_PLAYED_WINDOW :: nat where
  "RECENT_PLAYED_WINDOW = 20"

subsection \<open>The JavaScript operations the engine uses\<close>

text \<open>Truthiness of an optional number and of an optional string: \<^verbatim>\<open>undefined\<close>, \<^verbatim>\<open>0\<close>
  and \<^verbatim>\<open>""\<close> are falsy.\<close>

fun truthy_num :: "rat option \<Rightarrow> bool" where
  "truthy_num None = False"
| "truthy_num (Some v) = (v \<noteq> 0)"

fun truthy_str :: "string option \<Rightarrow> bool" where
  "truthy_str None = False"
| "truthy_str (Some s) = (s \<noteq> [])"

text \<open>\<^verbatim>\<open>m.set(k, v)\<close>: an existing key keeps its position, a new key goes last.\<close>

fun map_set :: "'k \<Rightarrow> 'v \<Rightarrow> ('k \<times> 'v) list \<Rightarrow> ('k \<times> 'v) list" where
  "map_set k v [] = [(k, v)]"
| "map_set k v (kv # m) = (if fst kv = k then (k, v) # m else kv # map_set k v m)"

text \<open>\<^verbatim>\<open>m.get(k) || 0\<close>: a missing key and a stored \<^verbatim>\<open>0\<close> both give \<^verbatim>\<open>0\<close>.\<close>

definition get_or_0 :: "('k \<times> rat) list \<Rightarrow> 'k \<Rightarrow> rat" where
  "get_or_0 m k = (case map_of m k of None \<Rightarrow> 0 | Some v \<Rightarrow> v)"

text \<open>\<^verbatim>\<open>s.add(x)\<close> and \<^verbatim>\<open>s.delete(x)\<close> on an insertion-ordered set.\<close>

definition set_add :: "'a \<Rightarrow> 'a list \<Rightarrow> 'a list" where
  "set_add x s = (if x \<in> set s then s else s @ [x])"

definition set_delete :: "'a \<Rightarrow> 'a list \<Rightarrow> 'a list" where
  "set_delete x s = removeAll x s"

text \<open>\<^verbatim>\<open>xs.slice(-n)\<close>: the last \<open>n\<close> elements, all of them when there are fewer.\<close>

definition slice_last :: "nat \<Rightarrow> 'a list \<Rightarrow> 'a list" where
  "slice_last n xs = drop (length xs - n) xs"

text \<open>\<^verbatim>\<open>xs.sort((a, b) => key(b) - key(a))\<close>: a stable sort into descending order of the key.\<close>

definition sort_desc :: "('a \<Rightarrow> rat) \<Rightarrow> 'a list \<Rightarrow> 'a list" where
  "sort_desc key xs = sort_key (\<lambda>x. - key x) xs"

subsection \<open>Recording a listening event\<close>

definition initializeProfile :: "rat \<Rightarrow> UserTasteProfile" where
  "initializeProfile now =
     \<lparr> artistPreferences = [], genrePreferences = [], moodPreferences = [],
       recentlyPlayed = [], recentlySkipped = [], favoriteArtists = [],
       discoveryOpenness = 3 / 10, lastUpdated = now \<rparr>"

definition new_engine :: "rat \<Rightarrow> engine" where
  "new_engine now = \<lparr> userProfile = initializeProfile now, listeningHistory = [] \<rparr>"

text \<open>Lines 99 to 101: \<^verbatim>\<open>listenDuration && songDuration ? listenDuration / songDuration : 1\<close>.\<close>

definition completionRatio :: "ListeningEvent \<Rightarrow> rat" where
  "completionRatio event =
     (if truthy_num (listenDuration event) \<and> truthy_num (songDuration event)
      then (case (listenDuration event, songDuration event) of
              (Some l, Some s) \<Rightarrow> l / s
            | _ \<Rightarrow> 1)
      else 1)"

text \<open>Lines 103 to 124: the \<^verbatim>\<open>switch\<close> on the action.\<close>

definition update_artist :: "ListeningEvent \<Rightarrow> UserTasteProfile \<Rightarrow> UserTasteProfile" where
  "update_artist event p =
     (let currentArtistScore = get_or_0 (artistPreferences p) (artist event) in
      case action event of
        Full_listen \<Rightarrow>
          p\<lparr>artistPreferences := map_set (artist event) (currentArtistScore + 3) (artistPreferences p)\<rparr>
      | Like \<Rightarrow>
          p\<lparr>artistPreferences := map_set (artist event) (currentArtistScore + 5) (artistPreferences p)\<rparr>
      | Replay \<Rightarrow>
          p\<lparr>artistPreferences := map_set (artist event) (currentArtistScore + 4) (artistPreferences p)\<rparr>
      | Skip \<Rightarrow>
          (let penalty = (if completionRatio event < 3 / 10 then - 2 else - (1 / 2)) in
           p\<lparr>artistPreferences :=
                map_set (artist event) (max 0 (currentArtistScore + penalty)) (artistPreferences p),
              recentlySkipped := set_add (songId event) (recentlySkipped p)\<rparr>)
      | Play \<Rightarrow>
          (let credit = completionRatio event * (3 / 2) in
           p\<lparr>artistPreferences :=
                map_set (artist event) (currentArtistScore + credit) (artistPreferences p)\<rparr>))"

text \<open>Lines 126 to 130.\<close>

definition update_genre :: "ListeningEvent \<Rightarrow> UserTasteProfile \<Rightarrow> UserTasteProfile" where
  "update_genre event p =
     (case genre event of
        None \<Rightarrow> p
      | Some g \<Rightarrow>
          if truthy_str (Some g) then
            (let currentGenreScore = get_or_0 (genrePreferences p) g;
                 genreBoost = (if action event = Skip then - 1 else completionRatio event * 2)
             in p\<lparr>genrePreferences :=
                    map_set g (max 0 (currentGenreScore + genreBoost)) (genrePreferences p)\<rparr>)
          else p)"

text \<open>Lines 132 to 136: \<^verbatim>\<open>Array.from(set)[0]\<close> is the oldest member.\<close>

definition update_recentlyPlayed :: "ListeningEvent \<Rightarrow> UserTasteProfile \<Rightarrow> UserTasteProfile" where
  "update_recentlyPlayed event p =
     (let played = set_add (songId event) (recentlyPlayed p) in
      if length played > RECENT_PLAYED_WINDOW
      then (case played of
              [] \<Rightarrow> p\<lparr>recentlyPlayed := played\<rparr>
            | oldest # _ \<Rightarrow> p\<lparr>recentlyPlayed := set_delete oldest played\<rparr>)
      else p\<lparr>recentlyPlayed := played\<rparr>)"

text \<open>Lines 138 to 141.\<close>

definition update_favoriteArtists :: "UserTasteProfile \<Rightarrow> UserTasteProfile" where
  "update_favoriteArtists p =
     p\<lparr>favoriteArtists := map fst (take 10 (sort_desc snd (artistPreferences p)))\<rparr>"

text \<open>Lines 143 to 151.\<close>

definition recentSkips :: "ListeningEvent list \<Rightarrow> nat" where
  "recentSkips history = length (filter (\<lambda>e. action e = Skip) (slice_last 10 history))"

definition update_discoveryOpenness :: "ListeningEvent list \<Rightarrow> UserTasteProfile \<Rightarrow> UserTasteProfile" where
  "update_discoveryOpenness history p =
     (if recentSkips history > 5
      then p\<lparr>discoveryOpenness := max (1 / 10) (discoveryOpenness p - 1 / 20)\<rparr>
      else if recentSkips history < 2
      then p\<lparr>discoveryOpenness := min (1 / 2) (discoveryOpenness p + 1 / 20)\<rparr>
      else p)"

text \<open>Lines 96 to 154: the statements of \<^verbatim>\<open>updateTasteProfile\<close> in their order.\<close>

definition updateTasteProfile :: "rat \<Rightarrow> ListeningEvent \<Rightarrow> engine \<Rightarrow> engine" where
  "updateTasteProfile now event eng =
     eng\<lparr>userProfile :=
           (update_discoveryOpenness (listeningHistory eng)
             (update_favoriteArtists
               (update_recentlyPlayed event
                 (update_genre event
                   (update_artist event (userProfile eng))))))
           \<lparr>lastUpdated := now\<rparr>\<rparr>"

text \<open>Lines 86 to 94: \<^verbatim>\<open>push\<close>, then \<^verbatim>\<open>shift\<close> when the window is exceeded.\<close>

definition recordListeningEvent :: "rat \<Rightarrow> ListeningEvent \<Rightarrow> engine \<Rightarrow> engine" where
  "recordListeningEvent now event eng =
     (let pushed = listeningHistory eng @ [event];
          history = (if length pushed > HISTORY_WINDOW then tl pushed else pushed)
      in updateTasteProfile now event (eng\<lparr>listeningHistory := history\<rparr>))"

text \<open>A session: the events recorded one after the other, each with the clock reading of
  its \<^verbatim>\<open>Date.now()\<close>.\<close>

fun record_all :: "(rat \<times> ListeningEvent) list \<Rightarrow> engine \<Rightarrow> engine" where
  "record_all [] eng = eng"
| "record_all (te # rest) eng = record_all rest (recordListeningEvent (fst te) (snd te) eng)"

subsection \<open>Scoring a candidate\<close>

text \<open>
  The engine reads four properties of a \<^verbatim>\<open>Song\<close> object: \<^verbatim>\<open>id\<close>, \<^verbatim>\<open>artist\<close>, \<^verbatim>\<open>genre\<close> and
  \<^verbatim>\<open>views\<close> (the fields are prefixed here, since \<^verbatim>\<open>artist\<close> and \<^verbatim>\<open>genre\<close> are fields of
  \<^verbatim>\<open>ListeningEvent\<close> too). \<^verbatim>\<open>results.includes(s.song)\<close> compares objects by identity, so the
  candidates are references into a store of song objects; the songs of the session
  context are only read and are kept by value. Counters and \<^verbatim>\<open>count\<close> are integers.
\<close>

record Song =
  song_id :: string
  song_artist :: string
  song_genre :: "string option"
  song_views :: "rat option"



datatype TimeOfDay = Morning | Afternoon | Evening | Night

record SessionContext =
  currentSong :: Song
  queue :: "Song list"
  recentQueue :: "Song list"
  timeOfDay :: TimeOfDay
  skipCount :: int
  repeatCount :: int
  isShuffled :: bool








definition calculateRepetitionPenalty :: "UserTasteProfile \<Rightarrow> Song \<Rightarrow> SessionContext \<Rightarrow> rat" where
  "calculateRepetitionPenalty p candidate context =
     (if song_id candidate \<in> set (recentlyPlayed p) then - 80
      else if song_id candidate \<in> set (recentlySkipped p) then - 100
      else (let recentArtists = map song_artist (slice_last 3 (recentQueue context))
            in if song_artist candidate \<in> set recentArtists then - 40 else 0))"



subsection \<open>Recommending\<close>






subsection \<open>Strategy\<close>

definition getRecommendationStrategy :: "engine \<Rightarrow> string" where
  "getRecommendationStrategy eng =
     (let skipRate =
            rat_of_nat (length (filter (\<lambda>e. action e = Skip) (slice_last 10 (listeningHistory eng)))) / 10
      in if skipRate > 1 / 2 then ''focus_mode''
         else if discoveryOpenness (userProfile eng) > 4 / 10 then ''discovery_mode''
         else ''balanced'')"

subsection \<open>Export and import\<close>

text \<open>
  \<^verbatim>\<open>importProfile\<close> stores whatever \<^verbatim>\<open>JSON.parse\<close> returns, of any shape, so this part works
  on untyped JavaScript values. The text held by a string is represented by what
  \<^verbatim>\<open>JSON.parse\<close> makes of it: \<open>Malformed\<close> for a string that is not JSON (the parser throws
  \<^verbatim>\<open>SyntaxError\<close>), \<open>Json v\<close> for a string that denotes the value \<open>v\<close>; and
  \<^verbatim>\<open>JSON.stringify(v)\<close> is the text that denotes \<open>v\<close>. An object is the list of its own
  properties, one entry for each name.
\<close>

datatype jsval =
    JUndefined
  | JNull
  | JBool bool
  | JNum rat
  | JStr string
  | JArr "jsval list"
  | JObj "(string \<times> jsval) list"

datatype js_error = SyntaxError | TypeError

datatype json_text = Malformed | Json jsval

text \<open>How a block of statements ends, and the state it leaves behind.\<close>

datatype 'a completion = Returned 'a | Thrown js_error 'a

fun JSON_parse :: "json_text \<Rightarrow> js_error + jsval" where
  "JSON_parse Malformed = Inl SyntaxError"
| "JSON_parse (Json v) = Inr v"

definition JSON_stringify :: "jsval \<Rightarrow> json_text" where
  "JSON_stringify v = Json v"

text \<open>Reading a property \<^verbatim>\<open>v.name\<close>, for the five names \<^verbatim>\<open>importProfile\<close> reads (none of them
  is a built-in property of a string, number, boolean or array): \<^verbatim>\<open>undefined\<close> and \<^verbatim>\<open>null\<close>
  throw \<^verbatim>\<open>TypeError\<close>, an object gives the property or \<^verbatim>\<open>undefined\<close>, everything else
  \<^verbatim>\<open>undefined\<close>.\<close>

fun get_prop :: "jsval \<Rightarrow> string \<Rightarrow> js_error + jsval" where
  "get_prop JUndefined name = Inl TypeError"
| "get_prop JNull name = Inl TypeError"
| "get_prop (JObj props) name = Inr (case map_of props name of None \<Rightarrow> JUndefined | Some v \<Rightarrow> v)"
| "get_prop v name = Inr JUndefined"

fun is_object :: "jsval \<Rightarrow> bool" where
  "is_object (JArr xs) = True"
| "is_object (JObj props) = True"
| "is_object v = False"

text \<open>\<^verbatim>\<open>item[0]\<close> and \<^verbatim>\<open>item[1]\<close> of an entry object.\<close>

fun entry_key :: "jsval \<Rightarrow> jsval" where
  "entry_key (JArr (k # rest)) = k"
| "entry_key (JObj props) = (case map_of props ''0'' of None \<Rightarrow> JUndefined | Some v \<Rightarrow> v)"
| "entry_key v = JUndefined"

fun entry_value :: "jsval \<Rightarrow> jsval" where
  "entry_value (JArr (k # v # rest)) = v"
| "entry_value (JObj props) = (case map_of props ''1'' of None \<Rightarrow> JUndefined | Some v \<Rightarrow> v)"
| "entry_value v = JUndefined"

text \<open>Keys of a \<^verbatim>\<open>Map\<close> are compared by SameValueZero: primitive values by value, objects by
  identity; every object made by \<^verbatim>\<open>JSON.parse\<close> is a new one, the same as no other key.\<close>

definition same_key :: "jsval \<Rightarrow> jsval \<Rightarrow> bool" where
  "same_key a b = (\<not> is_object a \<and> a = b)"

fun js_map_set :: "jsval \<Rightarrow> jsval \<Rightarrow> (jsval \<times> jsval) list \<Rightarrow> (jsval \<times> jsval) list" where
  "js_map_set k v [] = [(k, v)]"
| "js_map_set k v (kv # m) = (if same_key (fst kv) k then (fst kv, v) # m else kv # js_map_set k v m)"

text \<open>\<^verbatim>\<open>new Map(iterable)\<close>: \<^verbatim>\<open>undefined\<close> and \<^verbatim>\<open>null\<close> give the empty map; an array is
  read entry by entry, and an entry that is not an object throws; a string iterates over
  its characters, which are not objects; numbers, booleans and plain objects are not
  iterable.\<close>

fun add_entries :: "jsval list \<Rightarrow> (jsval \<times> jsval) list \<Rightarrow> js_error + (jsval \<times> jsval) list" where
  "add_entries [] m = Inr m"
| "add_entries (item # items) m =
     (if is_object item then add_entries items (js_map_set (entry_key item) (entry_value item) m)
      else Inl TypeError)"

fun new_Map :: "jsval \<Rightarrow> js_error + (jsval \<times> jsval) list" where
  "new_Map JUndefined = Inr []"
| "new_Map JNull = Inr []"
| "new_Map (JArr items) = add_entries items []"
| "new_Map (JStr s) = (if s = [] then Inr [] else Inl TypeError)"
| "new_Map v = Inl TypeError"

text \<open>The four fields \<^verbatim>\<open>importProfile\<close> assigns, as the untyped values they hold at run time;
  it touches no other field of the engine.\<close>

record js_profile =
  js_artistPreferences :: "(jsval \<times> jsval) list"
  js_genrePreferences :: "(jsval \<times> jsval) list"
  js_favoriteArtists :: jsval
  js_discoveryOpenness :: jsval

text \<open>The run-time values of a profile that has the declared types.\<close>

definition js_entries :: "(string \<times> rat) list \<Rightarrow> (jsval \<times> jsval) list" where
  "js_entries m = map (\<lambda>kv. (JStr (fst kv), JNum (snd kv))) m"

definition js_view :: "UserTasteProfile \<Rightarrow> js_profile" where
  "js_view p =
     \<lparr> js_artistPreferences = js_entries (artistPreferences p),
       js_genrePreferences = js_entries (genrePreferences p),
       js_favoriteArtists = JArr (map JStr (favoriteArtists p)),
       js_discoveryOpenness = JNum (discoveryOpenness p) \<rparr>"

text \<open>\<^verbatim>\<open>Array.from(m.entries())\<close>.\<close>

definition entries_array :: "(string \<times> rat) list \<Rightarrow> jsval" where
  "entries_array m = JArr (map (\<lambda>kv. JArr [JStr (fst kv), JNum (snd kv)]) m)"

fun action_name :: "Action \<Rightarrow> string" where
  "action_name Play = ''play''"
| "action_name Skip = ''skip''"
| "action_name Replay = ''replay''"
| "action_name Like = ''like''"
| "action_name Full_listen = ''full_listen''"

text \<open>An event object as \<^verbatim>\<open>JSON.stringify\<close> writes it: a property that is \<^verbatim>\<open>undefined\<close> is
  left out.\<close>

definition event_object :: "ListeningEvent \<Rightarrow> jsval" where
  "event_object e =
     JObj ([(''songId'', JStr (songId e)), (''artist'', JStr (artist e))]
           @ (case genre e of None \<Rightarrow> [] | Some g \<Rightarrow> [(''genre'', JStr g)])
           @ [(''action'', JStr (action_name (action e))), (''timestamp'', JNum (timestamp e))]
           @ (case listenDuration e of None \<Rightarrow> [] | Some l \<Rightarrow> [(''listenDuration'', JNum l)])
           @ (case songDuration e of None \<Rightarrow> [] | Some d \<Rightarrow> [(''songDuration'', JNum d)]))"

text \<open>Lines 325 to 335.\<close>

definition exportProfile :: "engine \<Rightarrow> json_text" where
  "exportProfile eng =
     JSON_stringify
       (JObj [(''profile'',
               JObj [(''artistPreferences'', entries_array (artistPreferences (userProfile eng))),
                     (''genrePreferences'', entries_array (genrePreferences (userProfile eng))),
                     (''favoriteArtists'', JArr (map JStr (favoriteArtists (userProfile eng)))),
                     (''discoveryOpenness'', JNum (discoveryOpenness (userProfile eng)))]),
              (''history'', JArr (map event_object (slice_last 20 (listeningHistory eng))))])"

text \<open>Lines 337 to 347. A statement of the \<^verbatim>\<open>try\<close> block that throws leaves the block with
  the assignments made so far.\<close>

definition or_throw :: "'s \<Rightarrow> js_error + 'a \<Rightarrow> ('a \<Rightarrow> 's completion) \<Rightarrow> 's completion" where
  "or_throw st r k = (case r of Inl e \<Rightarrow> Thrown e st | Inr v \<Rightarrow> k v)"

definition try_block :: "json_text \<Rightarrow> js_profile \<Rightarrow> js_profile completion" where
  "try_block data st0 =
     or_throw st0 (JSON_parse data) (\<lambda>parsed.
     or_throw st0 (get_prop parsed ''profile'') (\<lambda>profile1.
     or_throw st0 (get_prop profile1 ''artistPreferences'') (\<lambda>a.
     or_throw st0 (new_Map a) (\<lambda>am.
       let st1 = st0\<lparr>js_artistPreferences := am\<rparr> in
     or_throw st1 (get_prop parsed ''profile'') (\<lambda>profile2.
     or_throw st1 (get_prop profile2 ''genrePreferences'') (\<lambda>g.
     or_throw st1 (new_Map g) (\<lambda>gm.
       let st2 = st1\<lparr>js_genrePreferences := gm\<rparr> in
     or_throw st2 (get_prop parsed ''profile'') (\<lambda>profile3.
     or_throw st2 (get_prop profile3 ''favoriteArtists'') (\<lambda>f.
       let st3 = st2\<lparr>js_favoriteArtists := f\<rparr> in
     or_throw st3 (get_prop parsed ''profile'') (\<lambda>profile4.
     or_throw st3 (get_prop profile4 ''discoveryOpenness'') (\<lambda>d.
       Returned (st3\<lparr>js_discoveryOpenness := d\<rparr>))))))))))))"

text \<open>The \<^verbatim>\<open>catch\<close> clause logs the error and falls through to the end of the method.\<close>

definition importProfile :: "json_text \<Rightarrow> js_profile \<Rightarrow> js_profile completion" where
  "importProfile data st =
     (case try_block data st of
        Returned st' \<Rightarrow> Returned st'
      | Thrown error st' \<Rightarrow> Returned st')"

subsection \<open>Discovery openness in IEEE double arithmetic\<close>

text \<open>
  In exact arithmetic \<open>discoveryOpenness\<close> moves on the values 0.1, 0.15, ..., 0.5. The
  code computes it on IEEE 754 doubles, where \<^verbatim>\<open>0.3 + 0.05 + 0.05\<close> is
  \<^verbatim>\<open>0.39999999999999997\<close>. For the property that is about the size of its steps the field is
  therefore also computed as the code computes it: a double is the rational number it
  denotes, and every operation returns the double nearest to the exact result, a tie going
  to the even significand. Exponents are not bounded (no overflow and no subnormal
  numbers); the values of this field lie between 0.05 and 0.55.
\<close>

text \<open>\<open>pow2 e\<close> is 2 to the power \<open>e\<close>, for an integer \<open>e\<close>.\<close>

definition pow2 :: "int \<Rightarrow> rat" where
  "pow2 e = (if 0 \<le> e then 2 ^ nat e else 1 / 2 ^ nat (- e))"

text \<open>The number of binary digits of a natural number, and the binary exponent of a
  positive rational \<open>x\<close>: the integer \<open>e\<close> with \<open>2^e \<le> x < 2^(e+1)\<close>.\<close>

fun bit_length :: "nat \<Rightarrow> nat" where
  "bit_length n = (if n = 0 then 0 else Suc (bit_length (n div 2)))"

declare bit_length.simps [simp del]

definition binary_exponent :: "rat \<Rightarrow> int" where
  "binary_exponent x =
     (if 1 \<le> x then int (bit_length (nat \<lfloor>x\<rfloor>)) - 1
      else - int (bit_length (nat (\<lceil>1 / x\<rceil> - 1))))"

text \<open>Rounding to the nearest integer, a tie to the even one.\<close>

definition round_half_even :: "rat \<Rightarrow> int" where
  "round_half_even q =
     (let f = \<lfloor>q\<rfloor>; r = q - of_int f
      in if r < 1 / 2 then f
         else if 1 / 2 < r then f + 1
         else if even f then f else f + 1)"

text \<open>The double nearest to \<open>x\<close>: \<open>x\<close> is scaled so that its significand has 53 binary
  digits, rounded, and scaled back.\<close>

definition f64 :: "rat \<Rightarrow> rat" where
  "f64 x =
     (if x = 0 then 0
      else (let e = binary_exponent \<bar>x\<bar>;
                m = round_half_even (\<bar>x\<bar> / pow2 (e - 52))
            in sgn x * of_int m * pow2 (e - 52)))"





section \<open>Vocabulary of the properties\<close>

text \<open>The definitions of this section are not code of the engine: they say, in the words
  of the specification, what the properties below are about.\<close>

text \<open>Every score stored in a map is at least 0.\<close>

definition nonneg_scores :: "('k \<times> rat) list \<Rightarrow> bool" where
  "nonneg_scores m = list_all (\<lambda>kv. 0 \<le> snd kv) m"

text \<open>The number of skips among the 10 most recent history entries (all entries when there
  are fewer), and the skip rate: that number divided by 10.\<close>

definition spec_recent_skips :: "ListeningEvent list \<Rightarrow> nat" where
  "spec_recent_skips history = length (filter (\<lambda>e. action e = Skip) (take 10 (rev history)))"

definition spec_skip_rate :: "ListeningEvent list \<Rightarrow> rat" where
  "spec_skip_rate history = rat_of_nat (spec_recent_skips history) / 10"

text \<open>The values \<open>discoveryOpenness\<close> takes: from 0.1 to 0.5 in steps of 0.05.\<close>

definition openness_grid :: "rat list" where
  "openness_grid = [1 / 10, 3 / 20, 1 / 5, 1 / 4, 3 / 10, 7 / 20, 2 / 5, 9 / 20, 1 / 2]"

text \<open>\<open>favs\<close> is the list of the top \<open>n\<close> artists of the score map \<open>prefs\<close> (one entry for each
  artist), in descending order of score.\<close>

definition spec_top_artists :: "nat \<Rightarrow> (string \<times> rat) list \<Rightarrow> string list \<Rightarrow> bool" where
  "spec_top_artists n prefs favs =
     (length favs = min n (length prefs) \<and>
      distinct favs \<and>
      set favs \<subseteq> fst ` set prefs \<and>
      sorted_wrt (\<lambda>a b. get_or_0 prefs b \<le> get_or_0 prefs a) favs \<and>
      (\<forall>a \<in> set favs. \<forall>b \<in> fst ` set prefs - set favs. get_or_0 prefs b \<le> get_or_0 prefs a))"









text \<open>The state a block leaves behind, however it ends; whether an untyped value is a
  number within the bounds of \<open>discoveryOpenness\<close>; the export of a default profile whose
  \<open>discoveryOpenness\<close> is \<open>x\<close>; and a text whose \<^verbatim>\<open>genrePreferences\<close> is the number 5.\<close>

fun final_state :: "'a completion \<Rightarrow> 'a" where
  "final_state (Returned st) = st"
| "final_state (Thrown e st) = st"

fun openness_in_bounds :: "jsval \<Rightarrow> bool" where
  "openness_in_bounds (JNum d) = (1 / 10 \<le> d \<and> d \<le> 1 / 2)"
| "openness_in_bounds v = False"

definition text_with_openness :: "rat \<Rightarrow> json_text" where
  "text_with_openness x =
     exportProfile \<lparr>userProfile = (initializeProfile 0)\<lparr>discoveryOpenness := x\<rparr>,
                    listeningHistory = []\<rparr>"

definition half_profile_text :: json_text where
  "half_profile_text =
     Json (JObj [(''profile'',
                  JObj [(''artistPreferences'', JArr [JArr [JStr ''A'', JNum 1]]),
                        (''genrePreferences'', JNum 5)])])"





section \<open>Properties\<close>

subsection \<open>Maps, and the fields each step changes\<close>

lemma map_set_keys:
  "map fst (map_set k v m) = (if k \<in> set (map fst m) then map fst m else map fst m @ [k])"
  by (induction m) auto

lemma distinct_map_set:
  "distinct (map fst m) \<Longrightarrow> distinct (map fst (map_set k v m))"
  by (simp add: map_set_keys)

lemma list_all_map_set:
  "list_all P m \<Longrightarrow> P (k, v) \<Longrightarrow> list_all P (map_set k v m)"
  by (induction m) auto

lemma get_or_0_nonneg:
  "list_all (\<lambda>kv. 0 \<le> snd kv) m \<Longrightarrow> 0 \<le> get_or_0 m k"
proof -
  assume a: "list_all (\<lambda>kv. 0 \<le> snd kv) m"
  show ?thesis
  proof (cases "map_of m k")
    case None
    then show ?thesis by (simp add: get_or_0_def)
  next
    case (Some v)
    then have "(k, v) \<in> set m" by (rule map_of_SomeD)
    with a have "0 \<le> v" by (auto simp: list_all_iff)
    with Some show ?thesis by (simp add: get_or_0_def)
  qed
qed

text \<open>What each statement of \<^verbatim>\<open>updateTasteProfile\<close> does to the fields the properties are about.\<close>

lemma update_artist_fields:
  "genrePreferences (update_artist e p) = genrePreferences p"
  "discoveryOpenness (update_artist e p) = discoveryOpenness p"
  by (simp_all add: update_artist_def Let_def split: Action.splits)

lemma update_genre_fields:
  "artistPreferences (update_genre e p) = artistPreferences p"
  "discoveryOpenness (update_genre e p) = discoveryOpenness p"
  by (simp_all add: update_genre_def Let_def split: option.splits)

lemma update_recentlyPlayed_fields:
  "artistPreferences (update_recentlyPlayed e p) = artistPreferences p"
  "genrePreferences (update_recentlyPlayed e p) = genrePreferences p"
  "discoveryOpenness (update_recentlyPlayed e p) = discoveryOpenness p"
  by (simp_all add: update_recentlyPlayed_def Let_def split: list.splits)

lemma update_favoriteArtists_fields:
  "artistPreferences (update_favoriteArtists p) = artistPreferences p"
  "genrePreferences (update_favoriteArtists p) = genrePreferences p"
  "discoveryOpenness (update_favoriteArtists p) = discoveryOpenness p"
  "favoriteArtists (update_favoriteArtists p) = map fst (take 10 (sort_desc snd (artistPreferences p)))"
  by (simp_all add: update_favoriteArtists_def)

lemma update_discoveryOpenness_fields:
  "artistPreferences (update_discoveryOpenness h p) = artistPreferences p"
  "genrePreferences (update_discoveryOpenness h p) = genrePreferences p"
  "favoriteArtists (update_discoveryOpenness h p) = favoriteArtists p"
  by (simp_all add: update_discoveryOpenness_def)

lemma record_artistPreferences:
  "artistPreferences (userProfile (recordListeningEvent now e eng)) =
   artistPreferences (update_artist e (userProfile eng))"
  by (simp add: recordListeningEvent_def updateTasteProfile_def Let_def
      update_discoveryOpenness_fields update_favoriteArtists_fields
      update_recentlyPlayed_fields update_genre_fields)

lemma record_genrePreferences:
  "genrePreferences (userProfile (recordListeningEvent now e eng)) =
   genrePreferences (update_genre e (userProfile eng))"
  by (simp add: recordListeningEvent_def updateTasteProfile_def Let_def
      update_discoveryOpenness_fields update_favoriteArtists_fields
      update_recentlyPlayed_fields update_genre_def update_artist_fields split: option.splits)

lemma record_favoriteArtists:
  "favoriteArtists (userProfile (recordListeningEvent now e eng)) =
   map fst (take 10 (sort_desc snd (artistPreferences (userProfile (recordListeningEvent now e eng)))))"
  by (simp add: recordListeningEvent_def updateTasteProfile_def Let_def
      update_discoveryOpenness_fields update_favoriteArtists_fields
      update_recentlyPlayed_fields update_genre_fields)

lemma record_discoveryOpenness:
  "discoveryOpenness (userProfile (recordListeningEvent now e eng)) =
   (let d = discoveryOpenness (userProfile eng);
        n = recentSkips (listeningHistory (recordListeningEvent now e eng))
    in if n > 5 then max (1 / 10) (d - 1 / 20)
       else if n < 2 then min (1 / 2) (d + 1 / 20)
       else d)"
  by (simp add: recordListeningEvent_def updateTasteProfile_def Let_def
      update_discoveryOpenness_def update_favoriteArtists_fields
      update_recentlyPlayed_fields update_genre_fields update_artist_fields)

lemma record_all_snoc:
  "record_all (evs @ [te]) eng = recordListeningEvent (fst te) (snd te) (record_all evs eng)"
  by (induction evs arbitrary: eng) auto

subsection \<open>Discovery openness\<close>

lemma slice_last_rev: "rev (slice_last n xs) = take n (rev xs)"
proof (cases "n \<le> length xs")
  case True
  then show ?thesis by (simp add: slice_last_def rev_drop)
next
  case False
  then show ?thesis by (simp add: slice_last_def)
qed

lemma recentSkips_spec: "recentSkips history = spec_recent_skips history"
proof -
  have "length (filter (\<lambda>e. action e = Skip) (slice_last 10 history)) =
        length (filter (\<lambda>e. action e = Skip) (rev (slice_last 10 history)))"
    by (metis length_rev rev_filter)
  then show ?thesis
    by (simp add: recentSkips_def spec_recent_skips_def slice_last_rev)
qed

lemma grid_down: "d \<in> set openness_grid \<Longrightarrow> max (1 / 10) (d - 1 / 20) \<in> set openness_grid"
  unfolding openness_grid_def by (elim disjE | simp)+

lemma grid_up: "d \<in> set openness_grid \<Longrightarrow> min (1 / 2) (d + 1 / 20) \<in> set openness_grid"
  unfolding openness_grid_def by (elim disjE | simp)+

lemma grid_bounds: "d \<in> set openness_grid \<Longrightarrow> 1 / 10 \<le> d \<and> d \<le> 1 / 2"
  by (auto simp: openness_grid_def)

lemma record_on_grid:
  assumes "discoveryOpenness (userProfile eng) \<in> set openness_grid"
  shows "discoveryOpenness (userProfile (recordListeningEvent now e eng)) \<in> set openness_grid"
  using assms grid_down [OF assms] grid_up [OF assms]
  by (simp add: record_discoveryOpenness Let_def)

lemma record_all_on_grid:
  "discoveryOpenness (userProfile eng) \<in> set openness_grid \<Longrightarrow>
   discoveryOpenness (userProfile (record_all evs eng)) \<in> set openness_grid"
  by (induction evs arbitrary: eng) (simp_all add: record_on_grid)

lemma reachable_on_grid:
  "discoveryOpenness (userProfile (record_all evs (new_engine t0))) \<in> set openness_grid"
  by (rule record_all_on_grid) (simp add: new_engine_def initializeProfile_def openness_grid_def)

subsection \<open>Discovery openness on doubles\<close>

text \<open>\<open>f64 x\<close> is correctly rounded: a significand of 53 binary digits times a power of
  two, at most half a unit in the last place away from \<open>x\<close>.\<close>

lemma bit_length_pos: "0 < n \<Longrightarrow> 0 < bit_length n"
  by (subst bit_length.simps) simp

lemma bit_length_bounds:
  "0 < n \<Longrightarrow> 2 ^ (bit_length n - 1) \<le> n \<and> n < 2 ^ bit_length n"
proof (induction n rule: bit_length.induct)
  case (1 n)
  show ?case
  proof (cases "n div 2 = 0")
    case True
    with "1.prems" have "n = 1" by (simp add: div_eq_0_iff)
    then show ?thesis by (simp add: bit_length.simps)
  next
    case False
    define k where "k = bit_length (n div 2)"
    from False have pos: "0 < n div 2" by simp
    then have kpos: "0 < k" unfolding k_def by (rule bit_length_pos)
    from "1.prems" have n0: "n \<noteq> 0" by simp
    from "1.IH" [OF n0 pos] have a: "2 ^ (k - 1) \<le> n div 2" "n div 2 < 2 ^ k"
      by (simp_all add: k_def)
    have bl: "bit_length n = Suc k"
      using n0 by (subst bit_length.simps) (simp add: k_def)
    have p: "(2::nat) ^ k = 2 * 2 ^ (k - 1)"
      using kpos by (cases k) simp_all
    have "2 ^ k \<le> 2 * (n div 2)" using a(1) p by simp
    also have "\<dots> \<le> n" by simp
    finally have lower: "2 ^ k \<le> n" .
    have "n < 2 * (n div 2) + 2" by presburger
    also have "\<dots> \<le> 2 * 2 ^ k" using a(2) by simp
    finally have upper: "n < 2 ^ Suc k" by simp
    from lower upper show ?thesis by (simp add: bl)
  qed
qed

lemma binary_exponent_correct:
  assumes "0 < x"
  shows "pow2 (binary_exponent x) \<le> x \<and> x < pow2 (binary_exponent x + 1)"
proof (cases "1 \<le> x")
  case True
  define n where "n = nat \<lfloor>x\<rfloor>"
  define k where "k = bit_length n"
  from True have fl: "1 \<le> \<lfloor>x\<rfloor>" by simp
  then have npos: "0 < n" by (simp add: n_def)
  then have kpos: "0 < k" unfolding k_def by (rule bit_length_pos)
  from bit_length_bounds [OF npos] have b: "2 ^ (k - 1) \<le> n" "n < 2 ^ k"
    by (simp_all add: k_def)
  have e: "binary_exponent x = int k - 1"
    using True by (simp add: binary_exponent_def n_def k_def)
  have nx: "rat_of_nat n = of_int \<lfloor>x\<rfloor>" using fl by (simp add: n_def)
  have p1: "pow2 (int k - 1) = 2 ^ (k - 1)"
    using kpos by (simp add: pow2_def nat_diff_distrib')
  have p2: "pow2 (int k - 1 + 1) = 2 ^ k"
    by (simp add: pow2_def)
  have "(2::rat) ^ (k - 1) = rat_of_nat (2 ^ (k - 1))" by simp
  also have "\<dots> \<le> rat_of_nat n" using b(1) by (simp only: of_nat_le_iff)
  also have "\<dots> \<le> x" unfolding nx by simp
  finally have lower: "2 ^ (k - 1) \<le> x" .
  have "x < of_int \<lfloor>x\<rfloor> + 1" by linarith
  also have "\<dots> = rat_of_nat (n + 1)" using nx by simp
  also have "\<dots> \<le> rat_of_nat (2 ^ k)" using b(2) by (simp only: of_nat_le_iff)
  finally have upper: "x < 2 ^ k" by simp
  from lower upper p1 p2 show ?thesis unfolding e by simp
next
  case False
  define y where "y = 1 / x"
  define m where "m = \<lceil>y\<rceil>"
  define n where "n = nat (m - 1)"
  define k where "k = bit_length n"
  from False assms have y1: "1 < y" by (simp add: y_def)
  then have m2: "2 \<le> m" unfolding m_def by linarith
  then have npos: "0 < n" by (simp add: n_def)
  then have kpos: "0 < k" unfolding k_def by (rule bit_length_pos)
  from bit_length_bounds [OF npos] have b: "2 ^ (k - 1) \<le> n" "n < 2 ^ k"
    by (simp_all add: k_def)
  have e: "binary_exponent x = - int k"
    using False by (simp add: binary_exponent_def n_def k_def m_def y_def)
  have nm: "rat_of_nat n = of_int m - 1" using m2 by (simp add: n_def)
  have p1: "pow2 (- int k) = 1 / 2 ^ k"
    using kpos by (simp add: pow2_def)
  have p2: "pow2 (- int k + 1) = 1 / 2 ^ (k - 1)"
  proof (cases "k = 1")
    case True
    then show ?thesis by (simp add: pow2_def)
  next
    case False
    with kpos have "1 < k" by simp
    then have "nat (int k - 1) = k - 1" "\<not> 0 \<le> - int k + 1" by simp_all
    then show ?thesis by (simp add: pow2_def)
  qed
  have "y \<le> of_int m" unfolding m_def by simp
  also have "\<dots> = rat_of_nat (n + 1)" using nm by simp
  also have "\<dots> \<le> rat_of_nat (2 ^ k)" using b(2) by (simp only: of_nat_le_iff)
  finally have yk: "y \<le> 2 ^ k" by simp
  have "(2::rat) ^ (k - 1) = rat_of_nat (2 ^ (k - 1))" by simp
  also have "\<dots> \<le> rat_of_nat n" using b(1) by (simp only: of_nat_le_iff)
  also have "\<dots> = of_int m - 1" by (rule nm)
  also have "\<dots> < y" unfolding m_def by linarith
  finally have ky: "2 ^ (k - 1) < y" .
  have xy: "x = 1 / y" using assms by (simp add: y_def)
  have ypos: "0 < y" using y1 by simp
  have lower: "1 / 2 ^ k \<le> x"
    unfolding xy using yk ypos by (simp add: frac_le)
  have upper: "x < 1 / 2 ^ (k - 1)"
    unfolding xy using ky ypos by (simp add: frac_less2)
  from lower upper p1 p2 show ?thesis unfolding e by simp
qed

lemma round_half_even_error: "\<bar>of_int (round_half_even q) - q\<bar> \<le> 1 / 2"
proof -
  have "of_int \<lfloor>q\<rfloor> \<le> q" "q < of_int \<lfloor>q\<rfloor> + 1" by linarith+
  then show ?thesis
    by (auto simp: round_half_even_def Let_def)
qed

lemma pow2_powi: "pow2 e = 2 powi e"
  by (simp add: pow2_def power_int_def inverse_eq_divide power_one_over)

lemma pow2_pos: "0 < pow2 e"
  by (simp add: pow2_def)

lemma pow2_diff: "pow2 (a - b) = pow2 a / pow2 b"
  by (simp add: pow2_powi power_int_diff)

lemma pow2_52: "pow2 52 = 2 ^ 52" and pow2_53: "pow2 53 = 2 ^ 53" and pow2_1: "pow2 1 = 2"
  by (simp_all add: pow2_def)

lemma f64_correctly_rounded:
  assumes "x \<noteq> 0"
  shows "\<exists>m. f64 x = sgn x * of_int m * pow2 (binary_exponent \<bar>x\<bar> - 52) \<and>
             2 ^ 52 \<le> m \<and> m \<le> 2 ^ 53 \<and>
             \<bar>f64 x - x\<bar> \<le> pow2 (binary_exponent \<bar>x\<bar> - 53)"
proof -
  define a where "a = \<bar>x\<bar>"
  define e where "e = binary_exponent a"
  define u where "u = pow2 (e - 52)"
  define q where "q = a / u"
  define m where "m = round_half_even q"
  have apos: "0 < a" using assms by (simp add: a_def)
  have upos: "0 < u" unfolding u_def by (rule pow2_pos)
  from binary_exponent_correct [OF apos] have ex: "pow2 e \<le> a" "a < pow2 (e + 1)"
    by (simp_all add: e_def)
  have u_e: "pow2 e = 2 ^ 52 * u"
    unfolding u_def pow2_diff pow2_52 using pow2_pos [of 52] by (simp add: pow2_52)
  have "pow2 (e + 1) = pow2 (e - (- 1))" by simp
  also have "\<dots> = pow2 e * 2"
    unfolding pow2_diff by (simp add: pow2_def)
  finally have u_e1: "pow2 (e + 1) = 2 ^ 53 * u" by (simp add: u_e)
  have q_lo: "2 ^ 52 \<le> q"
    unfolding q_def using ex(1) upos by (simp add: u_e pos_le_divide_eq)
  have q_hi: "q < 2 ^ 53"
    unfolding q_def using ex(2) upos by (simp add: u_e1 pos_divide_less_eq)
  have err: "\<bar>of_int m - q\<bar> \<le> 1 / 2"
    unfolding m_def by (rule round_half_even_error)
  have near: "q - 1 / 2 \<le> of_int m" "of_int m \<le> q + 1 / 2"
    using err by linarith+
  have "rat_of_int (2 ^ 52 - 1) < of_int m"
    using near(1) q_lo by simp
  then have "2 ^ 52 - 1 < m" by (simp only: of_int_less_iff)
  then have m_lo: "2 ^ 52 \<le> m" by simp
  have "of_int m < rat_of_int (2 ^ 53 + 1)"
    using near(2) q_hi by simp
  then have "m < 2 ^ 53 + 1" by (simp only: of_int_less_iff)
  then have m_hi: "m \<le> 2 ^ 53" by simp
  have val: "f64 x = sgn x * of_int m * u"
    using assms by (simp add: f64_def Let_def m_def q_def u_def e_def a_def)
  have xa: "x = sgn x * a" by (simp add: a_def sgn_if)
  have "f64 x - x = sgn x * ((of_int m - q) * u)"
    using upos by (subst xa, subst val) (simp add: q_def algebra_simps)
  then have "\<bar>f64 x - x\<bar> = \<bar>of_int m - q\<bar> * u"
    using assms upos by (simp add: abs_mult sgn_if)
  also have "\<dots> \<le> (1 / 2) * u"
    using err upos by (simp add: mult_right_mono)
  also have "\<dots> = pow2 (e - 53)"
  proof -
    have "pow2 (e - 53) = pow2 (e - 52 - 1)" by simp
    also have "\<dots> = u / pow2 1" unfolding u_def by (rule pow2_diff)
    finally show ?thesis by (simp add: pow2_1)
  qed
  finally have bound: "\<bar>f64 x - x\<bar> \<le> pow2 (e - 53)" .
  from val m_lo m_hi bound show ?thesis
    unfolding u_def e_def a_def by blast
qed

text \<open>Evaluating \<open>f64\<close> on numerals.\<close>

lemma floor_numeral_div: "\<lfloor>(numeral a :: rat) / numeral b\<rfloor> = numeral a div numeral b"
  using floor_divide_of_int_eq [of "numeral a" "numeral b", where ?'a = rat] by simp

lemma ceiling_numeral_div: "\<lceil>(numeral a :: rat) / numeral b\<rceil> = - ((- numeral a) div numeral b)"
  using floor_divide_of_int_eq [of "- numeral a" "numeral b", where ?'a = rat]
  by (simp add: ceiling_def)

lemmas f64_eval = f64_def binary_exponent_def pow2_def round_half_even_def Let_def
  bit_length.simps floor_numeral_div ceiling_numeral_div


text \<open>Some values, among them two ties (\<open>2^53 + 1\<close> and \<open>2^53 + 3\<close>).\<close>

lemma f64_examples:
  "f64 (1 / 3) = 6004799503160661 / 18014398509481984"
  "f64 (- 7 / 3) = - (5254199565265579 / 2251799813685248)"
  "f64 9007199254740993 = 9007199254740992"
  "f64 9007199254740995 = 9007199254740996"
  "f64 (f64 (1 / 10)) = f64 (1 / 10)"
  "f64 (f64 (3 / 10) + f64 (1 / 20)) = 3152519739159347 / 9007199254740992"
  by (simp_all add: f64_eval)













subsection \<open>Affinity scores and the clamp at zero\<close>

lemma nonneg_map_set:
  "nonneg_scores m \<Longrightarrow> 0 \<le> v \<Longrightarrow> nonneg_scores (map_set k v m)"
  unfolding nonneg_scores_def by (rule list_all_map_set) simp_all

lemma nonneg_get: "nonneg_scores m \<Longrightarrow> 0 \<le> get_or_0 m k"
  unfolding nonneg_scores_def by (rule get_or_0_nonneg)

lemma update_genre_nonneg:
  "nonneg_scores (genrePreferences p) \<Longrightarrow> nonneg_scores (genrePreferences (update_genre e p))"
  by (simp add: update_genre_def Let_def nonneg_map_set split: option.splits)

lemma update_artist_nonneg:
  assumes "nonneg_scores (artistPreferences p)"
    and "action e = Play \<longrightarrow> 0 \<le> completionRatio e"
  shows "nonneg_scores (artistPreferences (update_artist e p))"
proof -
  have s: "0 \<le> get_or_0 (artistPreferences p) (artist e)"
    using assms(1) by (rule nonneg_get)
  show ?thesis
  proof (cases "action e")
    case Play
    with assms(2) have "0 \<le> completionRatio e * (3 / 2)" by simp
    with s have "0 \<le> get_or_0 (artistPreferences p) (artist e) + completionRatio e * (3 / 2)"
      by simp
    with Play assms(1) show ?thesis
      by (simp add: update_artist_def Let_def nonneg_map_set)
  next
    case Skip
    with assms(1) show ?thesis
      by (simp add: update_artist_def Let_def nonneg_map_set)
  next
    case Replay
    with assms(1) s show ?thesis
      by (simp add: update_artist_def Let_def nonneg_map_set)
  next
    case Like
    with assms(1) s show ?thesis
      by (simp add: update_artist_def Let_def nonneg_map_set)
  next
    case Full_listen
    with assms(1) s show ?thesis
      by (simp add: update_artist_def Let_def nonneg_map_set)
  qed
qed

lemma record_all_genre_nonneg:
  "nonneg_scores (genrePreferences (userProfile eng)) \<Longrightarrow>
   nonneg_scores (genrePreferences (userProfile (record_all evs eng)))"
proof (induction evs arbitrary: eng)
  case Nil
  then show ?case by simp
next
  case (Cons te evs)
  have "nonneg_scores (genrePreferences (userProfile (recordListeningEvent (fst te) (snd te) eng)))"
    using Cons.prems by (simp add: record_genrePreferences update_genre_nonneg)
  then show ?case by (simp add: Cons.IH)
qed

lemma record_all_artist_nonneg:
  "nonneg_scores (artistPreferences (userProfile eng)) \<Longrightarrow>
   list_all (\<lambda>te. action (snd te) = Play \<longrightarrow> 0 \<le> completionRatio (snd te)) evs \<Longrightarrow>
   nonneg_scores (artistPreferences (userProfile (record_all evs eng)))"
proof (induction evs arbitrary: eng)
  case Nil
  then show ?case by simp
next
  case (Cons te evs)
  have "nonneg_scores (artistPreferences (userProfile (recordListeningEvent (fst te) (snd te) eng)))"
    using Cons.prems by (simp add: record_artistPreferences update_artist_nonneg)
  with Cons.prems(2) show ?case by (simp add: Cons.IH)
qed

text \<open>
  Claim C2, as amended. After any sequence of events recorded into a fresh engine every
  stored genre score is at least 0; every stored artist score is at least 0 provided no
  \<^verbatim>\<open>play\<close> event of the sequence has a negative completion ratio. (The \<^verbatim>\<open>play\<close> branch adds
  \<open>completionRatio * 1.5\<close> to the artist score without \<^verbatim>\<open>Math.max(0, ...)\<close>.)
\<close>

theorem affinity_scores_nonneg:
  "nonneg_scores (genrePreferences (userProfile (record_all evs (new_engine t0)))) \<and>
   (list_all (\<lambda>te. action (snd te) = Play \<longrightarrow> 0 \<le> completionRatio (snd te)) evs \<longrightarrow>
    nonneg_scores (artistPreferences (userProfile (record_all evs (new_engine t0)))))"
proof -
  have "nonneg_scores (genrePreferences (userProfile (new_engine t0)))"
    and "nonneg_scores (artistPreferences (userProfile (new_engine t0)))"
    by (simp_all add: new_engine_def initializeProfile_def nonneg_scores_def)
  then show ?thesis
    by (simp add: record_all_genre_nonneg record_all_artist_nonneg)
qed

theorem affinity_scores_nonneg_witness:
  "list_all (\<lambda>te. action (snd te) = Play \<longrightarrow> 0 \<le> completionRatio (snd te))
     [(1, \<lparr>songId = ''s1'', artist = ''A'', genre = Some ''pop'', action = Play, timestamp = 1,
           listenDuration = Some 30, songDuration = Some 200\<rparr>),
      (2, \<lparr>songId = ''s1'', artist = ''A'', genre = Some ''pop'', action = Skip, timestamp = 2,
           listenDuration = Some 10, songDuration = Some 200\<rparr>)] \<and>
   nonneg_scores (artistPreferences (userProfile (record_all
     [(1, \<lparr>songId = ''s1'', artist = ''A'', genre = Some ''pop'', action = Play, timestamp = 1,
           listenDuration = Some 30, songDuration = Some 200\<rparr>),
      (2, \<lparr>songId = ''s1'', artist = ''A'', genre = Some ''pop'', action = Skip, timestamp = 2,
           listenDuration = Some 10, songDuration = Some 200\<rparr>)] (new_engine 0)))) \<and>
   nonneg_scores (genrePreferences (userProfile (record_all
     [(1, \<lparr>songId = ''s1'', artist = ''A'', genre = Some ''pop'', action = Play, timestamp = 1,
           listenDuration = Some 30, songDuration = Some 200\<rparr>),
      (2, \<lparr>songId = ''s1'', artist = ''A'', genre = Some ''pop'', action = Skip, timestamp = 2,
           listenDuration = Some 10, songDuration = Some 200\<rparr>)] (new_engine 0))))"
  using affinity_scores_nonneg [of
     "[(1, \<lparr>songId = ''s1'', artist = ''A'', genre = Some ''pop'', action = Play, timestamp = 1,
           listenDuration = Some 30, songDuration = Some 200\<rparr>),
      (2, \<lparr>songId = ''s1'', artist = ''A'', genre = Some ''pop'', action = Skip, timestamp = 2,
           listenDuration = Some 10, songDuration = Some 200\<rparr>)]" 0]
  by (simp add: completionRatio_def)

text \<open>
  Claim C2 as stated fails: one \<^verbatim>\<open>play\<close> event with \<^verbatim>\<open>listenDuration = -10\<close> and
  \<^verbatim>\<open>songDuration = 100\<close> stores the artist score \<open>-3/20\<close>.
\<close>

theorem artist_affinity_negative_counterexample:
  "\<not> nonneg_scores (artistPreferences (userProfile (record_all
      [(1, \<lparr>songId = ''s1'', artist = ''A'', genre = None, action = Play, timestamp = 1,
            listenDuration = Some (- 10), songDuration = Some 100\<rparr>)] (new_engine 0))))"
  by (simp add: record_artistPreferences update_artist_def completionRatio_def new_engine_def
      initializeProfile_def get_or_0_def nonneg_scores_def)

subsection \<open>Completion ratio\<close>

text \<open>
  Claim C4. The claim asks for completion ratio 0 when \<^verbatim>\<open>listenDuration = 0\<close> and the track
  duration is given and not zero. The test \<^verbatim>\<open>listenDuration && songDuration\<close> takes the
  number 0 for a missing value: the ratio of such an event is 1, and a skip at second 0 of
  a 200 second track, after a like (score 5), costs the artist 0.5 and not 2.
\<close>

theorem completionRatio_listen_zero:
  "completionRatio \<lparr>songId = ''s1'', artist = ''A'', genre = None, action = Skip, timestamp = 2,
                     listenDuration = Some 0, songDuration = Some 200\<rparr> = 1 \<and>
   artistPreferences (userProfile (record_all
     [(1, \<lparr>songId = ''s1'', artist = ''A'', genre = None, action = Like, timestamp = 1,
           listenDuration = None, songDuration = None\<rparr>),
      (2, \<lparr>songId = ''s1'', artist = ''A'', genre = None, action = Skip, timestamp = 2,
           listenDuration = Some 0, songDuration = Some 200\<rparr>)] (new_engine 0))) = [(''A'', 9 / 2)]"
  by (simp add: record_artistPreferences update_artist_def completionRatio_def new_engine_def
      initializeProfile_def get_or_0_def)

text \<open>The ratio in general: the quotient when both durations are given and neither is 0.\<close>

lemma completionRatio_cases:
  "completionRatio e =
     (case (listenDuration e, songDuration e) of
        (Some l, Some s) \<Rightarrow> if l \<noteq> 0 \<and> s \<noteq> 0 then l / s else 1
      | _ \<Rightarrow> 1)"
  by (simp add: completionRatio_def split: option.splits)

subsection \<open>Strategy\<close>

text \<open>
  Claim C7. \<^verbatim>\<open>getRecommendationStrategy\<close> returns \<^verbatim>\<open>focus_mode\<close> when the skip rate, the number
  of skips among the 10 most recent history entries divided by 10 whatever the length of
  the history, exceeds 0.5; otherwise \<^verbatim>\<open>discovery_mode\<close> when \<open>discoveryOpenness\<close> exceeds
  0.4; otherwise \<^verbatim>\<open>balanced\<close>. The skip rate exceeds 0.5 exactly when at least 6 of those
  entries are skips.
\<close>

theorem strategy_by_skip_rate:
  "getRecommendationStrategy eng =
     (if spec_skip_rate (listeningHistory eng) > 1 / 2 then ''focus_mode''
      else if discoveryOpenness (userProfile eng) > 4 / 10 then ''discovery_mode''
      else ''balanced'') \<and>
   (spec_skip_rate (listeningHistory eng) > 1 / 2) = (6 \<le> spec_recent_skips (listeningHistory eng))"
proof -
  have "rat_of_nat (length (filter (\<lambda>e. action e = Skip) (slice_last 10 (listeningHistory eng)))) / 10
        = spec_skip_rate (listeningHistory eng)"
    using recentSkips_spec [of "listeningHistory eng"]
    by (simp add: spec_skip_rate_def recentSkips_def)
  then have a: "getRecommendationStrategy eng =
     (if spec_skip_rate (listeningHistory eng) > 1 / 2 then ''focus_mode''
      else if discoveryOpenness (userProfile eng) > 4 / 10 then ''discovery_mode''
      else ''balanced'')"
    by (simp add: getRecommendationStrategy_def Let_def)
  have "(rat_of_nat n / 10 > 1 / 2) = (6 \<le> n)" for n :: nat
  proof -
    have "(rat_of_nat n / 10 > 1 / 2) = (rat_of_nat n > 5)" by simp
    also have "\<dots> = (rat_of_nat n > rat_of_nat 5)" by simp
    also have "\<dots> = (n > 5)" by (simp only: of_nat_less_iff)
    also have "\<dots> = (6 \<le> n)" by arith
    finally show ?thesis .
  qed
  then have b: "(spec_skip_rate (listeningHistory eng) > 1 / 2) = (6 \<le> spec_recent_skips (listeningHistory eng))"
    by (simp add: spec_skip_rate_def)
  from a b show ?thesis by (rule conjI)
qed

subsection \<open>Repetition penalty\<close>

text \<open>
  Claim C8. A candidate whose id is in \<open>recentlyPlayed\<close> and in \<open>recentlySkipped\<close> gets the
  repetition penalty -80; the penalty is -100 exactly when the id is in \<open>recentlySkipped\<close>
  and not in \<open>recentlyPlayed\<close>.
\<close>

theorem repetitionPenalty_played_before_skipped:
  "(song_id c \<in> set (recentlyPlayed p) \<and> song_id c \<in> set (recentlySkipped p) \<longrightarrow>
      calculateRepetitionPenalty p c context = - 80) \<and>
   (calculateRepetitionPenalty p c context = - 100) =
      (song_id c \<in> set (recentlySkipped p) \<and> song_id c \<notin> set (recentlyPlayed p))"
  by (simp add: calculateRepetitionPenalty_def Let_def)

lemma record_recently:
  "recentlySkipped (userProfile (recordListeningEvent now e eng)) =
     recentlySkipped (update_artist e (userProfile eng))"
  "recentlyPlayed (userProfile (recordListeningEvent now e eng)) =
     recentlyPlayed (update_recentlyPlayed e (update_genre e (update_artist e (userProfile eng))))"
  by (simp_all add: recordListeningEvent_def updateTasteProfile_def Let_def
      update_discoveryOpenness_def update_favoriteArtists_def update_recentlyPlayed_def
      update_genre_def split: option.splits list.splits)

text \<open>Both memberships hold right after a skip, which adds the track to both sets.\<close>

theorem repetitionPenalty_played_before_skipped_witness:
  "''s1'' \<in> set (recentlyPlayed (userProfile (recordListeningEvent 1
       \<lparr>songId = ''s1'', artist = ''A'', genre = None, action = Skip, timestamp = 1,
        listenDuration = Some 5, songDuration = Some 200\<rparr> (new_engine 0)))) \<and>
   ''s1'' \<in> set (recentlySkipped (userProfile (recordListeningEvent 1
       \<lparr>songId = ''s1'', artist = ''A'', genre = None, action = Skip, timestamp = 1,
        listenDuration = Some 5, songDuration = Some 200\<rparr> (new_engine 0)))) \<and>
   calculateRepetitionPenalty (userProfile (recordListeningEvent 1
       \<lparr>songId = ''s1'', artist = ''A'', genre = None, action = Skip, timestamp = 1,
        listenDuration = Some 5, songDuration = Some 200\<rparr> (new_engine 0)))
     \<lparr>song_id = ''s1'', song_artist = ''A'', song_genre = None, song_views = None\<rparr>
     \<lparr>currentSong = \<lparr>song_id = ''s0'', song_artist = ''B'', song_genre = None, song_views = None\<rparr>,
      queue = [], recentQueue = [], timeOfDay = Evening, skipCount = 1, repeatCount = 0,
      isShuffled = False\<rparr> = - 80"
  using repetitionPenalty_played_before_skipped [of
     "\<lparr>song_id = ''s1'', song_artist = ''A'', song_genre = None, song_views = None\<rparr>"
     "userProfile (recordListeningEvent 1
       \<lparr>songId = ''s1'', artist = ''A'', genre = None, action = Skip, timestamp = 1,
        listenDuration = Some 5, songDuration = Some 200\<rparr> (new_engine 0))"
     "\<lparr>currentSong = \<lparr>song_id = ''s0'', song_artist = ''B'', song_genre = None, song_views = None\<rparr>,
      queue = [], recentQueue = [], timeOfDay = Evening, skipCount = 1, repeatCount = 0,
      isShuffled = False\<rparr>"]
  by (simp add: record_recently update_artist_def update_genre_def update_recentlyPlayed_def
      new_engine_def initializeProfile_def set_add_def RECENT_PLAYED_WINDOW_def Let_def)

subsection \<open>Favourite artists\<close>

lemma get_or_0_entry:
  "distinct (map fst m) \<Longrightarrow> (k, v) \<in> set m \<Longrightarrow> get_or_0 m k = v"
  by (simp add: get_or_0_def)

lemma sort_desc_set: "set (sort_desc key xs) = set xs"
  by (simp add: sort_desc_def)

lemma sort_desc_length: "length (sort_desc key xs) = length xs"
  by (simp add: sort_desc_def)

lemma sort_desc_distinct_keys:
  "distinct (map f xs) \<Longrightarrow> distinct (map f (sort_desc key xs))"
  by (simp add: distinct_map sort_desc_def)

lemma sort_desc_sorted:
  "sorted_wrt (\<lambda>x y. key y \<le> key x) (sort_desc key xs)"
proof -
  have "sorted (map (\<lambda>x. - key x) (sort_desc key xs))"
    by (simp add: sort_desc_def)
  then show ?thesis
    by (simp add: sorted_map)
qed

lemma top_of_sorted:
  assumes d: "distinct (map fst prefs)"
  shows "spec_top_artists n prefs (map fst (take n (sort_desc snd prefs)))"
proof -
  define srt where "srt = sort_desc snd prefs"
  define top where "top = take n srt"
  have set_srt: "set srt = set prefs" by (simp add: srt_def sort_desc_set)
  have top_sub: "set top \<subseteq> set prefs"
    using set_take_subset [of n srt] by (simp add: top_def set_srt)
  have val: "get_or_0 prefs (fst x) = snd x" if "x \<in> set prefs" for x
    using d that by (cases x) (simp add: get_or_0_entry)
  have dk: "distinct (map fst srt)"
    unfolding srt_def using d by (rule sort_desc_distinct_keys)
  have split: "srt = top @ drop n srt" by (simp add: top_def)
  have sorted_srt: "sorted_wrt (\<lambda>x y. snd y \<le> snd x) srt"
    unfolding srt_def by (rule sort_desc_sorted)
  then have sorted_parts: "sorted_wrt (\<lambda>x y. snd y \<le> snd x) (top @ drop n srt)"
    using split by simp
  have len: "length (map fst top) = min n (length prefs)"
    by (simp add: top_def srt_def sort_desc_length min.commute)
  have dist: "distinct (map fst top)"
  proof -
    have "distinct (map fst top @ map fst (drop n srt))"
      using dk split by (metis map_append)
    then show ?thesis by simp
  qed
  have sub: "set (map fst top) \<subseteq> fst ` set prefs"
    using top_sub by auto
  have "sorted_wrt (\<lambda>x y. snd y \<le> snd x) top"
    using sorted_parts by (simp add: sorted_wrt_append)
  then have "sorted_wrt (\<lambda>x y. get_or_0 prefs (fst y) \<le> get_or_0 prefs (fst x)) top"
  proof (rule sorted_wrt_mono_rel [rotated])
    fix x y assume "x \<in> set top" "y \<in> set top" "snd y \<le> snd x"
    then show "get_or_0 prefs (fst y) \<le> get_or_0 prefs (fst x)"
      using top_sub by (simp add: val subsetD)
  qed
  then have srt_f: "sorted_wrt (\<lambda>a b. get_or_0 prefs b \<le> get_or_0 prefs a) (map fst top)"
    by (simp add: sorted_wrt_map)
  have rest: "get_or_0 prefs b \<le> get_or_0 prefs a"
    if a: "a \<in> set (map fst top)" and b: "b \<in> fst ` set prefs - set (map fst top)" for a b
  proof -
    from a obtain x where x: "x \<in> set top" "a = fst x" by auto
    from b obtain y where y: "y \<in> set prefs" "b = fst y" by auto
    from b y have "y \<notin> set top" by auto
    moreover from y set_srt split have "y \<in> set top \<union> set (drop n srt)"
      by (metis set_append)
    ultimately have "y \<in> set (drop n srt)" by simp
    with x sorted_parts have "snd y \<le> snd x"
      by (simp add: sorted_wrt_append)
    moreover from x top_sub have "x \<in> set prefs" by auto
    ultimately show ?thesis using x y by (simp add: val)
  qed
  show ?thesis
    unfolding spec_top_artists_def srt_def [symmetric] top_def [symmetric]
    using len dist sub srt_f rest by blast
qed

lemma update_artist_distinct:
  "distinct (map fst (artistPreferences p)) \<Longrightarrow>
   distinct (map fst (artistPreferences (update_artist e p)))"
  by (cases "action e") (simp_all add: update_artist_def Let_def distinct_map_set)

lemma update_genre_distinct:
  "distinct (map fst (genrePreferences p)) \<Longrightarrow>
   distinct (map fst (genrePreferences (update_genre e p)))"
  by (simp add: update_genre_def Let_def distinct_map_set split: option.splits)

lemma record_all_distinct:
  "distinct (map fst (artistPreferences (userProfile eng))) \<and>
   distinct (map fst (genrePreferences (userProfile eng))) \<Longrightarrow>
   distinct (map fst (artistPreferences (userProfile (record_all evs eng)))) \<and>
   distinct (map fst (genrePreferences (userProfile (record_all evs eng))))"
proof (induction evs arbitrary: eng)
  case Nil
  then show ?case by simp
next
  case (Cons te evs)
  have "distinct (map fst (artistPreferences (userProfile (recordListeningEvent (fst te) (snd te) eng)))) \<and>
        distinct (map fst (genrePreferences (userProfile (recordListeningEvent (fst te) (snd te) eng))))"
    using Cons.prems
    by (simp add: record_artistPreferences record_genrePreferences update_artist_distinct
        update_genre_distinct)
  then show ?case by (simp add: Cons.IH)
qed

lemma reachable_distinct:
  "distinct (map fst (artistPreferences (userProfile (record_all evs (new_engine t0))))) \<and>
   distinct (map fst (genrePreferences (userProfile (record_all evs (new_engine t0)))))"
  by (rule record_all_distinct) (simp add: new_engine_def initializeProfile_def)

text \<open>
  Claim C6. After every recorded event \<open>favoriteArtists\<close> is the list of the top artists of
  the \<open>artistPreferences\<close> the event leaves behind: 10 of them, or all when there are fewer,
  without repetition, in descending order of score, and no artist left out has a higher
  score than one that is listed.
\<close>

theorem favoriteArtists_top_ten:
  "spec_top_artists 10
     (artistPreferences (userProfile (recordListeningEvent now e (record_all evs (new_engine t0)))))
     (favoriteArtists (userProfile (recordListeningEvent now e (record_all evs (new_engine t0)))))"
proof -
  have "record_all (evs @ [(now, e)]) (new_engine t0) =
        recordListeningEvent now e (record_all evs (new_engine t0))"
    by (simp add: record_all_snoc)
  then have "distinct (map fst (artistPreferences
      (userProfile (recordListeningEvent now e (record_all evs (new_engine t0))))))"
    using reachable_distinct [of "evs @ [(now, e)]" t0] by simp
  then show ?thesis
    by (subst record_favoriteArtists) (rule top_of_sorted)
qed

text \<open>A replay of artist A (score 4), then a like of artist B (score 5): B comes first.\<close>

theorem favoriteArtists_top_ten_witness:
  "spec_top_artists 10 [(''A'', 4), (''B'', 5)] [''B'', ''A'']"
  using favoriteArtists_top_ten [of 2
     "\<lparr>songId = ''s2'', artist = ''B'', genre = None, action = Like, timestamp = 2,
       listenDuration = None, songDuration = None\<rparr>"
     "[(1, \<lparr>songId = ''s1'', artist = ''A'', genre = None, action = Replay, timestamp = 1,
            listenDuration = None, songDuration = None\<rparr>)]" 0]
  by (simp add: record_favoriteArtists record_artistPreferences update_artist_def
      new_engine_def initializeProfile_def get_or_0_def sort_desc_def)

subsection \<open>Recommendations\<close>


















subsection \<open>Export and import\<close>

lemma js_map_set_fresh:
  "k \<notin> set (map fst acc) \<Longrightarrow>
   js_map_set (JStr k) v (js_entries acc) = js_entries acc @ [(JStr k, v)]"
  by (induction acc) (auto simp: js_entries_def same_key_def)

lemma add_entries_typed:
  "distinct (map fst (acc @ m)) \<Longrightarrow>
   add_entries (map (\<lambda>kv. JArr [JStr (fst kv), JNum (snd kv)]) m) (js_entries acc) =
   Inr (js_entries (acc @ m))"
proof (induction m arbitrary: acc)
  case Nil
  then show ?case by simp
next
  case (Cons kv m)
  from Cons.prems have fresh: "fst kv \<notin> set (map fst acc)" by auto
  from Cons.prems have d: "distinct (map fst ((acc @ [kv]) @ m))" by auto
  have "js_map_set (JStr (fst kv)) (JNum (snd kv)) (js_entries acc) = js_entries (acc @ [kv])"
    using fresh by (simp add: js_map_set_fresh) (simp add: js_entries_def)
  then have "add_entries (map (\<lambda>kv. JArr [JStr (fst kv), JNum (snd kv)]) (kv # m)) (js_entries acc) =
        add_entries (map (\<lambda>kv. JArr [JStr (fst kv), JNum (snd kv)]) m) (js_entries (acc @ [kv]))"
    by simp
  also have "\<dots> = Inr (js_entries ((acc @ [kv]) @ m))"
    using d by (rule Cons.IH)
  finally show ?case by simp
qed

lemma new_Map_entries_array:
  "distinct (map fst m) \<Longrightarrow> new_Map (entries_array m) = Inr (js_entries m)"
  using add_entries_typed [of "[]" m] by (simp add: entries_array_def js_entries_def)

lemma import_export:
  assumes "distinct (map fst (artistPreferences (userProfile eng)))"
    and "distinct (map fst (genrePreferences (userProfile eng)))"
  shows "importProfile (exportProfile eng) st = Returned (js_view (userProfile eng))"
  using assms
  by (simp add: importProfile_def try_block_def or_throw_def exportProfile_def
      JSON_stringify_def new_Map_entries_array js_view_def)

lemma js_entries_inj: "(js_entries m = js_entries m') = (m = m')"
proof -
  have "inj (\<lambda>kv :: string \<times> rat. (JStr (fst kv), JNum (snd kv)))"
    by (rule injI) (auto simp: prod_eq_iff)
  then show ?thesis
    unfolding js_entries_def by (simp add: inj_map_eq_map)
qed

lemma js_view_inj:
  "(js_view p = js_view q) =
     (artistPreferences p = artistPreferences q \<and> genrePreferences p = genrePreferences q \<and>
      favoriteArtists p = favoriteArtists q \<and> discoveryOpenness p = discoveryOpenness q)"
proof -
  have "inj JStr" by (rule injI) simp
  then have "(map JStr xs = map JStr ys) = (xs = ys)" for xs ys
    by (simp add: inj_map_eq_map)
  then show ?thesis
    by (simp add: js_view_def js_entries_inj)
qed

text \<open>
  Claim C3. In every engine state reached by recording events into a fresh engine,
  \<^verbatim>\<open>importProfile(exportProfile())\<close> returns with \<open>artistPreferences\<close>, \<open>genrePreferences\<close>,
  \<open>favoriteArtists\<close> and \<open>discoveryOpenness\<close> holding the values they held before the call; and
  two profiles have the same run-time values in these four fields exactly when the four
  fields are equal: the same entries in the same order, with the same numbers.
\<close>

theorem import_export_round_trip:
  "importProfile (exportProfile (record_all evs (new_engine t0)))
       (js_view (userProfile (record_all evs (new_engine t0)))) =
     Returned (js_view (userProfile (record_all evs (new_engine t0)))) \<and>
   (js_view p = js_view (userProfile (record_all evs (new_engine t0)))) =
     (artistPreferences p = artistPreferences (userProfile (record_all evs (new_engine t0))) \<and>
      genrePreferences p = genrePreferences (userProfile (record_all evs (new_engine t0))) \<and>
      favoriteArtists p = favoriteArtists (userProfile (record_all evs (new_engine t0))) \<and>
      discoveryOpenness p = discoveryOpenness (userProfile (record_all evs (new_engine t0))))"
  using reachable_distinct [of evs t0]
  by (simp add: import_export js_view_inj)

text \<open>
  Claim C9. \<^verbatim>\<open>importProfile\<close> returns normally for every input text and every state. A text
  that is not JSON leaves the state as it was. A failure after the first assignment is
  not rolled back: for the text \<^verbatim>\<open>{"profile": {"artistPreferences": [["A", 1]],
  "genrePreferences": 5}}\<close> and a default profile, \<^verbatim>\<open>new Map(5)\<close> throws after
  \<open>artistPreferences\<close> has been replaced, and the method returns with the new
  \<open>artistPreferences\<close> and the old three other fields.
\<close>

theorem importProfile_never_throws:
  "(\<exists>st'. importProfile data st = Returned st') \<and>
   importProfile Malformed st = Returned st \<and>
   try_block half_profile_text (js_view (initializeProfile 0)) =
     Thrown TypeError
       \<lparr>js_artistPreferences = [(JStr ''A'', JNum 1)], js_genrePreferences = [],
        js_favoriteArtists = JArr [], js_discoveryOpenness = JNum (3 / 10)\<rparr> \<and>
   importProfile half_profile_text (js_view (initializeProfile 0)) =
     Returned
       \<lparr>js_artistPreferences = [(JStr ''A'', JNum 1)], js_genrePreferences = [],
        js_favoriteArtists = JArr [], js_discoveryOpenness = JNum (3 / 10)\<rparr> \<and>
   js_artistPreferences (js_view (initializeProfile 0)) = []"
proof -
  have a: "\<exists>st'. importProfile data st = Returned st'"
    by (cases "try_block data st") (simp_all add: importProfile_def)
  have b: "importProfile Malformed st = Returned st"
    by (simp add: importProfile_def try_block_def or_throw_def)
  have c: "try_block half_profile_text (js_view (initializeProfile 0)) =
     Thrown TypeError
       \<lparr>js_artistPreferences = [(JStr ''A'', JNum 1)], js_genrePreferences = [],
        js_favoriteArtists = JArr [], js_discoveryOpenness = JNum (3 / 10)\<rparr>"
    by (simp add: try_block_def or_throw_def half_profile_text_def js_view_def
        initializeProfile_def js_entries_def)
  then have d: "importProfile half_profile_text (js_view (initializeProfile 0)) =
     Returned
       \<lparr>js_artistPreferences = [(JStr ''A'', JNum 1)], js_genrePreferences = [],
        js_favoriteArtists = JArr [], js_discoveryOpenness = JNum (3 / 10)\<rparr>"
    by (simp add: importProfile_def)
  have e: "js_artistPreferences (js_view (initializeProfile 0)) = []"
    by (simp add: js_view_def initializeProfile_def js_entries_def)
  from a b c d e show ?thesis by simp
qed

text \<open>
  Claim C10. \<^verbatim>\<open>importProfile\<close> stores the \<open>discoveryOpenness\<close> of the text as it is: importing
  the export of a profile whose \<open>discoveryOpenness\<close> is \<open>x\<close> leaves \<open>x\<close> in the field, for
  \<open>x = 0.9\<close> a value outside the bounds 0.1 and 0.5, which every state reached by
  recording events alone respects.
\<close>

theorem importProfile_openness_unclamped:
  "js_discoveryOpenness (final_state (importProfile (text_with_openness x) st)) = JNum x \<and>
   \<not> openness_in_bounds
       (js_discoveryOpenness (final_state (importProfile (text_with_openness (9 / 10)) st))) \<and>
   openness_in_bounds (js_discoveryOpenness (js_view (userProfile (record_all evs (new_engine t0)))))"
proof -
  have "importProfile (text_with_openness y) st =
        Returned (js_view ((initializeProfile 0)\<lparr>discoveryOpenness := y\<rparr>))" for y
    unfolding text_with_openness_def
    by (subst import_export) (simp_all add: initializeProfile_def)
  then have a: "js_discoveryOpenness (final_state (importProfile (text_with_openness y) st)) = JNum y" for y
    by (simp add: js_view_def)
  have "discoveryOpenness (userProfile (record_all evs (new_engine t0))) \<in> set openness_grid"
    by (rule reachable_on_grid)
  then have "1 / 10 \<le> discoveryOpenness (userProfile (record_all evs (new_engine t0))) \<and>
             discoveryOpenness (userProfile (record_all evs (new_engine t0))) \<le> 1 / 2"
    by (rule grid_bounds)
  then have b: "openness_in_bounds (js_discoveryOpenness (js_view (userProfile (record_all evs (new_engine t0)))))"
    by (simp add: js_view_def)
  show ?thesis
    using a b by simp
qed

end
